theory Spec2Isabelle
  imports Complex_Main
begin

section \<open>Numbers\<close>

text \<open>
  The metrics of \<^verbatim>\<open>empyrical/stats.py\<close> work on numpy arrays of 64-bit floats. A
  float is modelled as an exact real number, one of the two infinities, or NaN. Rounding,
  overflow and the sign of zero are not modelled: a finite result is the real number that
  the arithmetic of the source denotes. What is modelled is the part of IEEE 754 that the
  source's edge-case policy depends on: NaN propagates through arithmetic, every ordered
  comparison with NaN is false, and opposite infinities cancel to NaN.
\<close>

datatype npfloat = Fin real | PInf | NInf | NaN

fun isnan :: "npfloat \<Rightarrow> bool" where
  "isnan NaN = True"
| "isnan _ = False"

fun isinf :: "npfloat \<Rightarrow> bool" where
  "isinf PInf = True"
| "isinf NInf = True"
| "isinf _ = False"

fun fneg :: "npfloat \<Rightarrow> npfloat" where
  "fneg (Fin a) = Fin (- a)"
| "fneg PInf = NInf"
| "fneg NInf = PInf"
| "fneg NaN = NaN"

fun fadd :: "npfloat \<Rightarrow> npfloat \<Rightarrow> npfloat" where
  "fadd (Fin a) (Fin b) = Fin (a + b)"
| "fadd NaN _ = NaN"
| "fadd _ NaN = NaN"
| "fadd PInf NInf = NaN"
| "fadd NInf PInf = NaN"
| "fadd PInf _ = PInf"
| "fadd _ PInf = PInf"
| "fadd NInf _ = NInf"
| "fadd _ NInf = NInf"

definition fsub :: "npfloat \<Rightarrow> npfloat \<Rightarrow> npfloat" where
  "fsub a b = fadd a (fneg b)"

text \<open>The sign of a float as an integer in \<open>{-1, 0, 1}\<close>; only used on non-NaN values.\<close>

fun fsign :: "npfloat \<Rightarrow> int" where
  "fsign (Fin a) = (if a < 0 then - 1 else if a = 0 then 0 else 1)"
| "fsign PInf = 1"
| "fsign NInf = - 1"
| "fsign NaN = 0"

definition signed_inf :: "int \<Rightarrow> npfloat" where
  "signed_inf s = (if s < 0 then NInf else if s = 0 then NaN else PInf)"

fun fmul :: "npfloat \<Rightarrow> npfloat \<Rightarrow> npfloat" where
  "fmul (Fin a) (Fin b) = Fin (a * b)"
| "fmul NaN _ = NaN"
| "fmul _ NaN = NaN"
| "fmul a b = signed_inf (fsign a * fsign b)"

text \<open>
  Division of floats never raises in numpy: a finite non-zero value divided by zero is an
  infinity (the zero is taken as positive), and \<open>0 / 0\<close> and \<open>inf / inf\<close> are NaN.
\<close>

fun fdiv :: "npfloat \<Rightarrow> npfloat \<Rightarrow> npfloat" where
  "fdiv (Fin a) (Fin b) = (if b = 0 then signed_inf (fsign (Fin a)) else Fin (a / b))"
| "fdiv NaN _ = NaN"
| "fdiv _ NaN = NaN"
| "fdiv (Fin a) _ = Fin 0"
| "fdiv a (Fin b) = signed_inf (fsign a * (if b < 0 then - 1 else 1))"
| "fdiv _ _ = NaN"

fun fsqrt :: "npfloat \<Rightarrow> npfloat" where
  "fsqrt (Fin a) = (if a < 0 then NaN else Fin (sqrt a))"
| "fsqrt PInf = PInf"
| "fsqrt NInf = NaN"
| "fsqrt NaN = NaN"

fun fabs :: "npfloat \<Rightarrow> npfloat" where
  "fabs (Fin a) = Fin \<bar>a\<bar>"
| "fabs NaN = NaN"
| "fabs _ = PInf"

text \<open>Comparisons: \<open>flt a b\<close> is \<^verbatim>\<open>a < b\<close>, \<open>feq a b\<close> is \<^verbatim>\<open>a == b\<close>.\<close>

fun flt :: "npfloat \<Rightarrow> npfloat \<Rightarrow> bool" where
  "flt (Fin a) (Fin b) = (a < b)"
| "flt NaN _ = False"
| "flt _ NaN = False"
| "flt _ NInf = False"
| "flt PInf _ = False"
| "flt _ _ = True"

definition fgt :: "npfloat \<Rightarrow> npfloat \<Rightarrow> bool" where
  "fgt a b = flt b a"

definition feq :: "npfloat \<Rightarrow> npfloat \<Rightarrow> bool" where
  "feq a b = (\<not> isnan a \<and> a = b)"

definition fle :: "npfloat \<Rightarrow> npfloat \<Rightarrow> bool" where
  "fle a b = (flt a b \<or> feq a b)"

text \<open>\<^verbatim>\<open>np.fmax\<close>: the larger of two values, ignoring a NaN where the other is a number.\<close>

definition fmax :: "npfloat \<Rightarrow> npfloat \<Rightarrow> npfloat" where
  "fmax a b = (if isnan a then b else if isnan b then a else if flt a b then b else a)"

definition fmin :: "npfloat \<Rightarrow> npfloat \<Rightarrow> npfloat" where
  "fmin a b = (if isnan a then b else if isnan b then a else if flt b a then b else a)"

section \<open>Array operations of numpy\<close>

text \<open>
  A one-dimensional array is a list. \<open>accumulate f\<close> is \<^verbatim>\<open>f.accumulate\<close> of a ufunc:
  \<^verbatim>\<open>np.cumsum\<close> is \<open>accumulate fadd\<close>, \<^verbatim>\<open>cumprod\<close> is \<open>accumulate fmul\<close>.
\<close>

fun accumulate_from :: "('a \<Rightarrow> 'a \<Rightarrow> 'a) \<Rightarrow> 'a \<Rightarrow> 'a list \<Rightarrow> 'a list" where
  "accumulate_from f acc [] = []"
| "accumulate_from f acc (x # xs) = f acc x # accumulate_from f (f acc x) xs"

fun accumulate :: "('a \<Rightarrow> 'a \<Rightarrow> 'a) \<Rightarrow> 'a list \<Rightarrow> 'a list" where
  "accumulate f [] = []"
| "accumulate f (x # xs) = x # accumulate_from f x xs"

definition cumsum :: "npfloat list \<Rightarrow> npfloat list" where
  "cumsum = accumulate fadd"

definition cumprod :: "npfloat list \<Rightarrow> npfloat list" where
  "cumprod = accumulate fmul"

text \<open>Python's builtin \<^verbatim>\<open>sum\<close>: starts from 0 and adds from the left.\<close>

definition py_sum :: "npfloat list \<Rightarrow> npfloat" where
  "py_sum xs = foldl fadd (Fin 0) xs"

section \<open>Errors\<close>

datatype error = ValueError string | IndexError | ZeroDivisionError | TypeError

section \<open>Helpers imported from other modules of the package\<close>

text \<open>
  Modelled from the spec: \<^verbatim>\<open>empyrical/periods.py\<close> is not among the source files. It
  provides the labels and the table \<^verbatim>\<open>ANNUALIZATION_FACTORS\<close>, which the spec gives as
  \<open>{daily:252, weekly:52, monthly:12, yearly:1}\<close>, and \<^verbatim>\<open>APPROX_BDAYS_PER_YEAR\<close>, the
  "standard business-day count" 252.
\<close>

definition DAILY :: string where "DAILY = ''daily''"
definition WEEKLY :: string where "WEEKLY = ''weekly''"
definition MONTHLY :: string where "MONTHLY = ''monthly''"
definition YEARLY :: string where "YEARLY = ''yearly''"

definition APPROX_BDAYS_PER_YEAR :: int where
  "APPROX_BDAYS_PER_YEAR = 252"

definition ANNUALIZATION_FACTORS :: "(string \<times> npfloat) list" where
  "ANNUALIZATION_FACTORS =
     [(DAILY, Fin 252), (WEEKLY, Fin 52), (MONTHLY, Fin 12), (YEARLY, Fin 1)]"

text \<open>
  Modelled from the spec: \<^verbatim>\<open>empyrical/utils.py\<close> is not among the source files. Its
  \<^verbatim>\<open>nanmean\<close>, \<^verbatim>\<open>nanstd\<close> and \<^verbatim>\<open>nanmin\<close> are the spec's "NaN-aware aggregate
  functions (mean/std/percentile ignoring undefined entries)"; \<^verbatim>\<open>nanstd\<close> with
  \<^verbatim>\<open>ddof=1\<close> is the "sample standard deviation (NaN-excluding, 1 degree of freedom
  correction)". An aggregate over no valid entry is NaN.
\<close>

definition dropna :: "npfloat list \<Rightarrow> npfloat list" where
  "dropna xs = filter (\<lambda>x. \<not> isnan x) xs"

definition fsum :: "npfloat list \<Rightarrow> npfloat" where
  "fsum xs = foldl fadd (Fin 0) xs"

definition nanmean :: "npfloat list \<Rightarrow> npfloat" where
  "nanmean xs =
     (let ys = dropna xs
      in if ys = [] then NaN else fdiv (fsum ys) (Fin (real (length ys))))"

definition nanstd :: "npfloat list \<Rightarrow> nat \<Rightarrow> npfloat" where
  "nanstd xs ddof =
     (let ys = dropna xs; n = length ys
      in if n \<le> ddof then NaN
         else let m = fdiv (fsum ys) (Fin (real n));
                  sq = map (\<lambda>y. fmul (fsub y m) (fsub y m)) ys
              in fsqrt (fdiv (fsum sq) (Fin (real (n - ddof)))))"

definition nanmin :: "npfloat list \<Rightarrow> npfloat" where
  "nanmin xs = (case dropna xs of [] \<Rightarrow> NaN | y # ys \<Rightarrow> foldl fmin y ys)"

section \<open>The metrics of \<^verbatim>\<open>stats.py\<close>\<close>

text \<open>
  The series are one-dimensional numpy arrays. The branches of the source for pandas
  objects (a DataFrame of columns, alignment on an index) are not modelled. Every
  \<^verbatim>\<open>raise\<close> of the source, and every exception of a numpy or Python operation it calls,
  is an \<open>Inl\<close> result.
\<close>

subsection \<open>\<^verbatim>\<open>_adjust_returns\<close>\<close>

text \<open>
  The adjustment is a number or an array. A number equal to 0 returns the input itself;
  otherwise the subtraction broadcasts: arrays of equal length subtract elementwise, an
  array of length 1 is stretched, and any other pair of lengths is numpy's broadcast error.
\<close>

datatype adjustment = Scalar npfloat | Series "npfloat list"

definition broadcast_error :: error where
  "broadcast_error = ValueError ''operands could not be broadcast together''"

definition array_sub :: "npfloat list \<Rightarrow> npfloat list \<Rightarrow> error + npfloat list" where
  "array_sub xs ys =
     (if length xs = length ys then Inr (map2 fsub xs ys)
      else if length ys = 1 then Inr (map (\<lambda>x. fsub x (hd ys)) xs)
      else if length xs = 1 then Inr (map (\<lambda>y. fsub (hd xs) y) ys)
      else Inl broadcast_error)"

fun adjust_returns :: "npfloat list \<Rightarrow> adjustment \<Rightarrow> error + npfloat list" where
  "adjust_returns returns (Scalar a) =
     (if feq a (Fin 0) then Inr returns else Inr (map (\<lambda>x. fsub x a) returns))"
| "adjust_returns returns (Series ys) = array_sub returns ys"

subsection \<open>\<^verbatim>\<open>annualization_factor\<close>\<close>

fun join :: "string \<Rightarrow> string list \<Rightarrow> string" where
  "join sep [] = []"
| "join sep [x] = x"
| "join sep (x # y # ys) = x @ sep @ join sep (y # ys)"

definition apostrophe :: string where
  "apostrophe = [CHR 0x27]"

definition period_error :: "string \<Rightarrow> error" where
  "period_error period =
     ValueError (''Period cannot be '' @ apostrophe @ period @ apostrophe @ ''. ''
       @ ''Can be '' @ apostrophe
       @ join (apostrophe @ '', '' @ apostrophe) (map fst ANNUALIZATION_FACTORS)
       @ apostrophe @ ''.'')"

definition annualization_factor :: "string \<Rightarrow> npfloat option \<Rightarrow> error + npfloat" where
  "annualization_factor period annualization =
     (case annualization of
        None \<Rightarrow>
          (case map_of ANNUALIZATION_FACTORS period of
             Some factor \<Rightarrow> Inr factor
           | None \<Rightarrow> Inl (period_error period))
      | Some a \<Rightarrow> Inr a)"

subsection \<open>\<^verbatim>\<open>cum_returns\<close> and \<^verbatim>\<open>cum_returns_final\<close>\<close>

text \<open>
  What \<^verbatim>\<open>cum_returns\<close> returns is a numpy array of one dimension, or, for an empty
  input, the result of \<^verbatim>\<open>type(returns)([])\<close>. For a numpy array that expression is
  \<^verbatim>\<open>np.ndarray([])\<close>, whose argument is the shape: it allocates an array of shape \<open>()\<close>,
  a single value that is never initialised. That value is whatever the memory held; it is
  the unspecified constant \<open>uninitialised\<close>.
\<close>

datatype ndarray = Array "npfloat list" | ZeroDim npfloat

definition uninitialised :: npfloat where
  "uninitialised = undefined"

text \<open>
  \<^verbatim>\<open>len(a)\<close> raises TypeError on an array without dimensions, and \<^verbatim>\<open>a[-1]\<close> raises
  IndexError there and on an empty array. \<^verbatim>\<open>np.insert(a, 0, v)\<close> flattens \<open>a\<close> and puts
  \<open>v\<close> in front.
\<close>

fun np_len :: "ndarray \<Rightarrow> error + nat" where
  "np_len (Array xs) = Inr (length xs)"
| "np_len (ZeroDim x) = Inl TypeError"

fun last_item :: "ndarray \<Rightarrow> error + npfloat" where
  "last_item (Array xs) = (if xs = [] then Inl IndexError else Inr (last xs))"
| "last_item (ZeroDim x) = Inl IndexError"

fun np_insert_front :: "ndarray \<Rightarrow> npfloat \<Rightarrow> npfloat list" where
  "np_insert_front (Array xs) v = v # xs"
| "np_insert_front (ZeroDim x) v = [v, x]"

text \<open>
  The source computes \<^verbatim>\<open>df_cum = (returns + 1).cumprod(axis=0)\<close> and never reads it;
  what it returns is built from \<^verbatim>\<open>return_cum = np.cumsum(returns) + 1\<close>.
\<close>

definition cum_returns :: "npfloat list \<Rightarrow> npfloat \<Rightarrow> ndarray" where
  "cum_returns returns starting_value =
     (if length returns < 1 then ZeroDim uninitialised
      else
        let returns = (if list_ex isnan returns
                       then map (\<lambda>x. if isnan x then Fin 0 else x) returns
                       else returns);
            df_cum = cumprod (map (\<lambda>x. fadd x (Fin 1)) returns);
            return_cum = map (\<lambda>x. fadd x (Fin 1)) (cumsum returns)
        in if feq starting_value (Fin 0)
           then Array (map (\<lambda>x. fsub x (Fin 1)) return_cum)
           else Array return_cum)"

definition cum_returns_final :: "npfloat list \<Rightarrow> npfloat \<Rightarrow> error + npfloat" where
  "cum_returns_final returns starting_value =
     (if length returns = 0 then Inr NaN
      else last_item (cum_returns returns starting_value))"

subsection \<open>\<^verbatim>\<open>max_drawdown\<close>\<close>

text \<open>
  \<^verbatim>\<open>np.insert(a, 0, 1)\<close> puts the origin value 1 in front of the cumulative series;
  \<^verbatim>\<open>np.fmax.accumulate\<close> is the running maximum.
\<close>

definition max_drawdown :: "npfloat list \<Rightarrow> npfloat" where
  "max_drawdown returns =
     (if length returns < 1 then NaN
      else
        let cumulative = np_insert_front (cum_returns returns (Fin 100)) (Fin 1);
            max_return = accumulate fmax cumulative
        in nanmin (map2 (\<lambda>c m. fdiv (fsub c m) m) cumulative max_return))"

subsection \<open>\<^verbatim>\<open>omega_ratio\<close>\<close>

text \<open>
  \<^verbatim>\<open>b ** e\<close> for the base \<^verbatim>\<open>1 + required_return\<close>. \<^verbatim>\<open>omega_ratio\<close> returns before the
  power is taken whenever \<^verbatim>\<open>required_return <= -1\<close>, so the base is a positive number,
  positive infinity or NaN wherever the power is reached; the cases of a base that is not
  positive are never used.
\<close>

fun fpow :: "npfloat \<Rightarrow> real \<Rightarrow> npfloat" where
  "fpow (Fin b) e = (if 0 < b then Fin (b powr e) else NaN)"
| "fpow PInf e = (if 0 < e then PInf else if e = 0 then Fin 1 else Fin 0)"
| "fpow NInf e = NaN"
| "fpow NaN e = NaN"

text \<open>The statements of \<^verbatim>\<open>omega_ratio\<close> after \<^verbatim>\<open>return_threshold\<close> is set.\<close>

definition omega_from_threshold :: "npfloat list \<Rightarrow> npfloat \<Rightarrow> npfloat \<Rightarrow> npfloat" where
  "omega_from_threshold returns risk_free return_threshold =
     (let returns_less_thresh = map (\<lambda>x. fsub (fsub x risk_free) return_threshold) returns;
          numer = py_sum (filter (\<lambda>x. fgt x (Fin 0)) returns_less_thresh);
          denom = fmul (Fin (- 1)) (py_sum (filter (\<lambda>x. flt x (Fin 0)) returns_less_thresh))
      in if fgt denom (Fin 0) then fdiv numer denom else NaN)"

text \<open>
  \<^verbatim>\<open>annualization\<close> is a Python integer: \<^verbatim>\<open>1. / annualization\<close> raises
  ZeroDivisionError when it is 0.
\<close>

definition omega_ratio ::
  "npfloat list \<Rightarrow> npfloat \<Rightarrow> npfloat \<Rightarrow> int \<Rightarrow> error + npfloat" where
  "omega_ratio returns risk_free required_return annualization =
     (if length returns < 2 then Inr NaN
      else if annualization = 1
        then Inr (omega_from_threshold returns risk_free required_return)
      else if fle required_return (Fin (- 1)) then Inr NaN
      else if annualization = 0 then Inl ZeroDivisionError
      else Inr (omega_from_threshold returns risk_free
             (fsub (fpow (fadd (Fin 1) required_return) (1 / real_of_int annualization))
                   (Fin 1))))"

subsection \<open>\<^verbatim>\<open>downside_risk\<close>\<close>

definition downside_risk ::
  "npfloat list \<Rightarrow> adjustment \<Rightarrow> string \<Rightarrow> npfloat option \<Rightarrow> error + npfloat" where
  "downside_risk returns required_return period annualization =
     (if length returns < 1 then Inr NaN
      else case annualization_factor period annualization of
        Inl e \<Rightarrow> Inl e
      | Inr ann_factor \<Rightarrow>
          (case adjust_returns returns required_return of
             Inl e \<Rightarrow> Inl e
           | Inr downside_diff \<Rightarrow>
               let downside_diff = map (\<lambda>x. if fgt x (Fin 0) then Fin 0 else x) downside_diff;
                   squares = map (\<lambda>x. fmul x x) downside_diff;
                   mean_squares = nanmean squares
               in Inr (fmul (fsqrt mean_squares) (fsqrt ann_factor))))"

subsection \<open>\<^verbatim>\<open>excess_sharpe\<close>\<close>

definition excess_sharpe :: "npfloat list \<Rightarrow> adjustment \<Rightarrow> error + npfloat" where
  "excess_sharpe returns factor_returns =
     (if length returns < 2 then Inr NaN
      else case adjust_returns returns factor_returns of
        Inl e \<Rightarrow> Inl e
      | Inr active_return \<Rightarrow>
          let tracking_error = nanstd active_return 1
          in if isnan tracking_error then Inr (Fin 0)
             else if feq tracking_error (Fin 0) then Inr NaN
             else Inr (fdiv (nanmean active_return) tracking_error))"

subsection \<open>\<^verbatim>\<open>beta_aligned\<close>\<close>

text \<open>
  \<^verbatim>\<open>np.cov(m, ddof=d)\<close> of a matrix with the two rows \<open>xs\<close> and \<open>ys\<close>: every row is
  centred on its mean, and the entry for two rows is the sum of the products of their
  centred values divided by \<open>N - d\<close>. The result is the matrix
  \<open>((c00, c01), (c10, c11))\<close>.
\<close>

definition row_mean :: "npfloat list \<Rightarrow> npfloat" where
  "row_mean xs = fdiv (fsum xs) (Fin (real (length xs)))"

definition cov_entry :: "npfloat list \<Rightarrow> npfloat list \<Rightarrow> nat \<Rightarrow> npfloat" where
  "cov_entry xs ys ddof =
     (let cx = map (\<lambda>x. fsub x (row_mean xs)) xs;
          cy = map (\<lambda>y. fsub y (row_mean ys)) ys
      in fdiv (fsum (map2 fmul cx cy)) (Fin (real (length xs) - real ddof)))"

definition np_cov ::
  "npfloat list \<Rightarrow> npfloat list \<Rightarrow> nat \<Rightarrow> (npfloat \<times> npfloat) \<times> (npfloat \<times> npfloat)" where
  "np_cov xs ys ddof =
     ((cov_entry xs xs ddof, cov_entry xs ys ddof),
      (cov_entry ys xs ddof, cov_entry ys ys ddof))"

definition vstack_error :: error where
  "vstack_error = ValueError ''all the input array dimensions must match exactly''"

text \<open>
  \<^verbatim>\<open>risk_free\<close> is a number. \<^verbatim>\<open>np.vstack\<close> needs rows of one length; the columns that
  hold a NaN in either row are then dropped.
\<close>

definition beta_aligned :: "npfloat list \<Rightarrow> npfloat list \<Rightarrow> npfloat \<Rightarrow> error + npfloat" where
  "beta_aligned returns factor_returns risk_free =
     (if length returns < 2 \<or> length factor_returns < 2 then Inr NaN
      else case adjust_returns returns (Scalar risk_free) of
        Inl e \<Rightarrow> Inl e
      | Inr adjusted \<Rightarrow>
          if length adjusted \<noteq> length factor_returns then Inl vstack_error
          else
            let joint = filter (\<lambda>(x, y). \<not> (isnan x \<or> isnan y)) (zip adjusted factor_returns)
            in if length joint < 2 then Inr NaN
               else
                 let cov = np_cov (map fst joint) (map snd joint) 0
                 in if flt (fabs (snd (snd cov))) (Fin (1 / 10 ^ 30)) then Inr NaN
                    else Inr (fdiv (snd (fst cov)) (snd (snd cov))))"

subsection \<open>\<^verbatim>\<open>value_at_risk\<close>\<close>

text \<open>
  \<^verbatim>\<open>np.percentile(a, q)\<close> with numpy's default linear interpolation. numpy first checks
  that \<open>q\<close> lies in \<open>[0, 100]\<close>. It has no case for an empty array: the read of the
  element at the computed position fails there with IndexError. An array that holds a NaN
  gives NaN. Otherwise the array is sorted, and the result interpolates between the two
  elements \<open>a\<close> and \<open>b\<close> around position \<open>q / 100 * (n - 1)\<close>: with the fraction \<open>t\<close>
  of the position it is \<open>a + (b - a) * t\<close> for \<open>t < 0.5\<close> and \<open>b - (b - a) * (1 - t)\<close>
  from \<open>0.5\<close> on.
\<close>

definition lerp :: "npfloat \<Rightarrow> npfloat \<Rightarrow> real \<Rightarrow> npfloat" where
  "lerp a b t =
     (if 1 / 2 \<le> t then fsub b (fmul (fsub b a) (Fin (1 - t)))
      else fadd a (fmul (fsub b a) (Fin t)))"

fun insort_float :: "npfloat \<Rightarrow> npfloat list \<Rightarrow> npfloat list" where
  "insort_float x [] = [x]"
| "insort_float x (y # ys) = (if flt y x then y # insort_float x ys else x # y # ys)"

definition np_sort :: "npfloat list \<Rightarrow> npfloat list" where
  "np_sort xs = foldr insort_float xs []"

definition percentile_error :: error where
  "percentile_error = ValueError ''Percentiles must be in the range [0, 100]''"

definition np_percentile :: "npfloat list \<Rightarrow> npfloat \<Rightarrow> error + npfloat" where
  "np_percentile a q =
     (case q of
        Fin p \<Rightarrow>
          if \<not> (0 \<le> p \<and> p \<le> 100) then Inl percentile_error
          else if a = [] then Inl IndexError
          else if list_ex isnan a then Inr NaN
          else
            let s = np_sort a;
                pos = p / 100 * (real (length a) - 1);
                lo = nat \<lfloor>pos\<rfloor>;
                hi = min (lo + 1) (length a - 1)
            in Inr (lerp (s ! lo) (s ! hi) (pos - real lo))
      | _ \<Rightarrow> Inl percentile_error)"

definition value_at_risk :: "npfloat list \<Rightarrow> npfloat \<Rightarrow> error + npfloat" where
  "value_at_risk returns cutoff = np_percentile returns (fmul (Fin 100) cutoff)"

section \<open>Reference definitions\<close>

text \<open>
  The statistics over real numbers that the theorems compare the code with: the mean, the
  population covariance and the population variance of samples.
\<close>

definition pmean :: "real list \<Rightarrow> real" where
  "pmean xs = sum_list xs / real (length xs)"

definition pcov :: "real list \<Rightarrow> real list \<Rightarrow> real" where
  "pcov xs ys =
     sum_list (map2 (\<lambda>x y. (x - pmean xs) * (y - pmean ys)) xs ys) / real (length xs)"

definition pvar :: "real list \<Rightarrow> real" where
  "pvar ys = pcov ys ys"

text \<open>The observations of two aligned series at the positions where both hold a number.\<close>

fun valid_pairs :: "npfloat list \<Rightarrow> npfloat list \<Rightarrow> (real \<times> real) list" where
  "valid_pairs (Fin x # xs) (Fin y # ys) = (x, y) # valid_pairs xs ys"
| "valid_pairs (_ # xs) (_ # ys) = valid_pairs xs ys"
| "valid_pairs _ _ = []"

definition nonneg :: "npfloat \<Rightarrow> bool" where
  "nonneg x = fle (Fin 0) x"

definition negative :: "npfloat \<Rightarrow> bool" where
  "negative x = flt x (Fin 0)"

definition zero_or_nan :: "npfloat \<Rightarrow> bool" where
  "zero_or_nan x = (x = Fin 0 \<or> x = NaN)"

section \<open>Facts about the numbers and the array operations\<close>

lemma fadd_zero_left: "fadd (Fin 0) x = x"
  by (cases x) auto

lemma fsub_Fin_zero: "fsub x (Fin 0) = x"
  by (cases x) (auto simp: fsub_def)

lemma fle_refl: "\<not> isnan a \<Longrightarrow> fle a a"
  by (simp add: fle_def feq_def)

lemma fle_trans: "fle a b \<Longrightarrow> fle b c \<Longrightarrow> fle a c"
  by (cases a; cases b; cases c) (auto simp: fle_def feq_def)

lemma fmin_not_nan: "\<not> isnan a \<Longrightarrow> \<not> isnan (fmin a b)"
  by (auto simp: fmin_def)

lemma fmin_le_left: "\<not> isnan a \<Longrightarrow> fle (fmin a b) a"
  by (cases a; cases b) (auto simp: fmin_def fle_def feq_def)

lemma nonneg_cases: "nonneg x \<longleftrightarrow> x = PInf \<or> (\<exists>r\<ge>0. x = Fin r)"
  by (cases x) (auto simp: nonneg_def fle_def feq_def)

lemma negative_cases: "negative x \<longleftrightarrow> x = NInf \<or> (\<exists>r<0. x = Fin r)"
  by (cases x) (auto simp: negative_def)

lemma length_accumulate_from: "length (accumulate_from f a xs) = length xs"
  by (induction xs arbitrary: a) auto

lemma length_accumulate: "length (accumulate f xs) = length xs"
  by (cases xs) (auto simp: length_accumulate_from)

lemma accumulate_Nil_iff: "accumulate f xs = [] \<longleftrightarrow> xs = []"
  by (cases xs) auto

lemma cumsum_from_zero: "cumsum xs = accumulate_from fadd (Fin 0) xs"
  by (cases xs) (auto simp: cumsum_def fadd_zero_left)

lemma foldl_fadd_Fin: "foldl fadd (Fin a) (map Fin xs) = Fin (a + sum_list xs)"
  by (induction xs arbitrary: a) (auto simp: add.assoc)

lemma fsum_Fin: "fsum (map Fin xs) = Fin (sum_list xs)"
  by (simp add: fsum_def foldl_fadd_Fin)

lemma map2_fmul_Fin: "map2 fmul (map Fin as) (map Fin bs) = map Fin (map2 (*) as bs)"
  by (induction as arbitrary: bs) (auto simp: zip_Cons1 split: list.splits)

lemma adjust_returns_scalar:
  "adjust_returns returns (Scalar (Fin rf)) = Inr (map (\<lambda>x. fsub x (Fin rf)) returns)"
  by (simp add: feq_def fsub_Fin_zero)

section \<open>The cumulative-return transform\<close>

text \<open>
  C1. The claim: \<^verbatim>\<open>cum_returns\<close> is the compounded running product of \<open>1 + r\<close>, so
  \<^verbatim>\<open>cum_returns_final\<close> of a constant series \<open>c\<close> of length \<open>n\<close> is \<open>(1 + c)^n - 1\<close>. The
  code returns the running sum instead: for two periods of 50% it gives 1, where the
  compounded return is 1.25.
\<close>

theorem cum_returns_final_constant_series_sums:
  "cum_returns_final [Fin (1 / 2), Fin (1 / 2)] (Fin 0) = Inr (Fin 1)
   \<and> Fin ((1 + 1 / 2) ^ 2 - 1) = Fin (5 / 4)"
  by (simp add: cum_returns_final_def cum_returns_def cumsum_def cumprod_def
      feq_def fsub_def power2_eq_square)

text \<open>
  C2. The claim: with \<^verbatim>\<open>starting_value = 0\<close> the result is the cumulative growth minus 1,
  and with any other starting value it is the growth times the starting value. For two
  periods of 50% the growth is \<open>[1.5, 2.25]\<close> (the \<^verbatim>\<open>df_cum\<close> that the code computes and
  drops). The code returns \<open>[0.5, 1]\<close> for the starting value 0, not \<open>[0.5, 1.25]\<close>, and
  \<open>[1.5, 2]\<close> for the starting value 100, not \<open>[150, 225]\<close>.
\<close>

theorem cum_returns_sums_and_drops_starting_value:
  "cumprod (map (\<lambda>x. fadd x (Fin 1)) [Fin (1 / 2), Fin (1 / 2)]) = [Fin (3 / 2), Fin (9 / 4)]
   \<and> cum_returns [Fin (1 / 2), Fin (1 / 2)] (Fin 0) = Array [Fin (1 / 2), Fin 1]
   \<and> cum_returns [Fin (1 / 2), Fin (1 / 2)] (Fin 100) = Array [Fin (3 / 2), Fin 2]"
  by (simp add: cum_returns_def cumsum_def cumprod_def feq_def fsub_def)

text \<open>
  On a non-empty series \<^verbatim>\<open>cum_returns\<close> gives an array of the same length, whose last
  element is what \<^verbatim>\<open>cum_returns_final\<close> returns; \<^verbatim>\<open>cum_returns_final\<close> of the empty
  series is NaN.
\<close>

lemma cum_returns_nonempty:
  assumes "r \<noteq> []"
  shows "\<exists>cs. cum_returns r s = Array cs \<and> length cs = length r
              \<and> cum_returns_final r s = Inr (last cs)"
  using assms
  by (auto simp: cum_returns_def cum_returns_final_def Let_def cumsum_def
      length_accumulate accumulate_Nil_iff)

lemma cum_returns_final_empty: "cum_returns_final [] s = Inr NaN"
  by (simp add: cum_returns_final_def)

text \<open>
  C10. The claim: \<^verbatim>\<open>cum_returns(r, 0)\<close> is as long as \<open>r\<close>, and for the empty series it
  is the empty series. On the empty numpy array the code returns \<^verbatim>\<open>np.ndarray([])\<close>
  instead: an array without dimensions that holds one uninitialised value. It is not the
  empty array, and it has no length (\<^verbatim>\<open>len\<close> raises TypeError), where the input has
  length 0.
\<close>

theorem cum_returns_empty_zero_dim:
  "cum_returns [] (Fin 0) = ZeroDim uninitialised
   \<and> cum_returns [] (Fin 0) \<noteq> Array []
   \<and> np_len (cum_returns [] (Fin 0)) = Inl TypeError
   \<and> np_len (Array []) = Inr 0"
  by (simp add: cum_returns_def)

section \<open>The annualization registry\<close>

text \<open>
  C8. \<^verbatim>\<open>annualization_factor\<close> returns an override unchanged, whatever the label. With
  no override it returns 252, 52, 12 and 1 for daily, weekly, monthly and yearly, and for
  any other label it raises a ValueError whose message names the four labels.
\<close>

theorem annualization_factor_resolves:
  "annualization_factor period (Some a) = Inr a
   \<and> annualization_factor ''daily'' None = Inr (Fin 252)
   \<and> annualization_factor ''weekly'' None = Inr (Fin 52)
   \<and> annualization_factor ''monthly'' None = Inr (Fin 12)
   \<and> annualization_factor ''yearly'' None = Inr (Fin 1)
   \<and> (period \<notin> {''daily'', ''weekly'', ''monthly'', ''yearly''} \<longrightarrow>
        annualization_factor period None =
          Inl (ValueError (''Period cannot be '' @ [CHR 0x27] @ period @ [CHR 0x27]
             @ ''. Can be '' @ [CHR 0x27] @ ''daily'' @ [CHR 0x27] @ '', ''
             @ [CHR 0x27] @ ''weekly'' @ [CHR 0x27] @ '', ''
             @ [CHR 0x27] @ ''monthly'' @ [CHR 0x27] @ '', ''
             @ [CHR 0x27] @ ''yearly'' @ [CHR 0x27] @ ''.'')))"
  by (simp add: annualization_factor_def ANNUALIZATION_FACTORS_def DAILY_def WEEKLY_def
      MONTHLY_def YEARLY_def period_error_def apostrophe_def)

theorem annualization_factor_resolves_witness:
  "''hourly'' \<notin> {''daily'', ''weekly'', ''monthly'', ''yearly''}
   \<and> annualization_factor ''hourly'' (Some (Fin 1638)) = Inr (Fin 1638)
   \<and> annualization_factor ''hourly'' None =
         Inl (ValueError (''Period cannot be '' @ [CHR 0x27] @ ''hourly'' @ [CHR 0x27]
            @ ''. Can be '' @ [CHR 0x27] @ ''daily'' @ [CHR 0x27] @ '', ''
            @ [CHR 0x27] @ ''weekly'' @ [CHR 0x27] @ '', ''
            @ [CHR 0x27] @ ''monthly'' @ [CHR 0x27] @ '', ''
            @ [CHR 0x27] @ ''yearly'' @ [CHR 0x27] @ ''.''))"
  using annualization_factor_resolves [of "''hourly''" "Fin 1638"] by simp

section \<open>Drawdown\<close>

lemma foldl_fmin_le: "\<not> isnan a \<Longrightarrow> fle (foldl fmin a ys) a"
proof (induction ys arbitrary: a)
  case Nil
  then show ?case by (simp add: fle_refl)
next
  case (Cons y ys)
  have "fle (foldl fmin (fmin a y) ys) (fmin a y)"
    using Cons.prems by (intro Cons.IH fmin_not_nan)
  moreover have "fle (fmin a y) a"
    using Cons.prems by (rule fmin_le_left)
  ultimately show ?case
    using fle_trans by simp
qed

lemma nanmin_Cons_le: "\<not> isnan a \<Longrightarrow> fle (nanmin (a # xs)) a"
  by (simp add: nanmin_def dropna_def foldl_fmin_le)

text \<open>
  The first element of the drawdown series is the origin against itself, \<open>(1 - 1) / 1\<close>.
\<close>

lemma max_drawdown_unfold:
  "returns \<noteq> [] \<Longrightarrow> cum_returns returns (Fin 100) = Array cs \<Longrightarrow>
     max_drawdown returns =
       nanmin (Fin 0 # map2 (\<lambda>c m. fdiv (fsub c m) m) cs (accumulate_from fmax (Fin 1) cs))"
  by (simp add: max_drawdown_def Let_def fsub_def)

text \<open>
  Over non-negative returns the cumulative series never falls below its running maximum:
  every drawdown is 0 (or NaN, where the series has reached infinity).
\<close>

lemma running_ratio:
  assumes "nonneg a" "list_all nonneg xs"
  shows "list_all zero_or_nan
    (map2 (\<lambda>c m. fdiv (fsub c m) m)
       (map (\<lambda>x. fadd x (Fin 1)) (accumulate_from fadd a xs))
       (accumulate_from fmax (fadd a (Fin 1))
          (map (\<lambda>x. fadd x (Fin 1)) (accumulate_from fadd a xs))))"
  using assms
proof (induction xs arbitrary: a)
  case Nil
  then show ?case by simp
next
  case (Cons x xs)
  have nx: "nonneg x" and nxs: "list_all nonneg xs"
    using Cons.prems(2) by auto
  have ns: "nonneg (fadd a x)"
    using Cons.prems(1) nx by (auto simp: nonneg_cases)
  have mx: "fmax (fadd a (Fin 1)) (fadd (fadd a x) (Fin 1)) = fadd (fadd a x) (Fin 1)"
    using Cons.prems(1) nx by (auto simp: nonneg_cases fmax_def)
  have z: "zero_or_nan (fdiv (fsub (fadd (fadd a x) (Fin 1)) (fadd (fadd a x) (Fin 1)))
                           (fadd (fadd a x) (Fin 1)))"
    using ns by (auto simp: nonneg_cases zero_or_nan_def fsub_def)
  show ?case
    using Cons.IH[OF ns nxs] z by (simp add: mx)
qed

lemma nanmin_zero_or_nan:
  assumes "list_all zero_or_nan xs"
  shows "nanmin (Fin 0 # xs) = Fin 0"
proof -
  have "foldl fmin (Fin 0) (dropna xs) = Fin 0"
    using assms by (induction xs) (auto simp: dropna_def zero_or_nan_def fmin_def)
  then show ?thesis
    by (simp add: nanmin_def dropna_def)
qed

lemma max_drawdown_nonneg:
  assumes "returns \<noteq> []" "list_all (\<lambda>x. isnan x \<or> fle (Fin 0) x) returns"
  shows "max_drawdown returns = Fin 0"
proof -
  define filled where
    "filled = (if list_ex isnan returns
               then map (\<lambda>x. if isnan x then Fin 0 else x) returns else returns)"
  have nn: "list_all nonneg filled"
    using assms(2) unfolding filled_def
    by (auto simp: list_all_iff list_ex_iff nonneg_def fle_def feq_def)
  have cum: "cum_returns returns (Fin 100)
             = Array (map (\<lambda>x. fadd x (Fin 1)) (accumulate_from fadd (Fin 0) filled))"
    using assms(1) by (simp add: cum_returns_def Let_def feq_def filled_def cumsum_from_zero)
  have n0: "nonneg (Fin 0)" by (simp add: nonneg_cases)
  have "max_drawdown returns = nanmin (Fin 0 #
     map2 (\<lambda>c m. fdiv (fsub c m) m)
       (map (\<lambda>x. fadd x (Fin 1)) (accumulate_from fadd (Fin 0) filled))
       (accumulate_from fmax (fadd (Fin 0) (Fin 1))
          (map (\<lambda>x. fadd x (Fin 1)) (accumulate_from fadd (Fin 0) filled))))"
    using assms(1) by (simp add: max_drawdown_unfold[OF _ cum])
  then show ?thesis
    using running_ratio[OF n0 nn] nanmin_zero_or_nan by simp
qed

text \<open>
  C4. For a non-empty series \<^verbatim>\<open>max_drawdown\<close> is a number that is at most 0; it is
  exactly 0 when every return is non-negative (a NaN return counts as 0, as in
  \<^verbatim>\<open>cum_returns\<close>); and it is NaN for the empty series.
\<close>

theorem max_drawdown_nonpositive:
  "(returns \<noteq> [] \<longrightarrow> fle (max_drawdown returns) (Fin 0))
   \<and> (returns \<noteq> [] \<and> list_all (\<lambda>x. isnan x \<or> fle (Fin 0) x) returns
        \<longrightarrow> max_drawdown returns = Fin 0)
   \<and> max_drawdown [] = NaN"
proof (intro conjI impI)
  assume ne: "returns \<noteq> []"
  then obtain cs where "cum_returns returns (Fin 100) = Array cs"
    using cum_returns_nonempty by blast
  with ne show "fle (max_drawdown returns) (Fin 0)"
    by (simp add: max_drawdown_unfold nanmin_Cons_le)
next
  assume "returns \<noteq> [] \<and> list_all (\<lambda>x. isnan x \<or> fle (Fin 0) x) returns"
  then show "max_drawdown returns = Fin 0"
    by (simp add: max_drawdown_nonneg)
next
  show "max_drawdown [] = NaN"
    by (simp add: max_drawdown_def)
qed

theorem max_drawdown_nonpositive_witness:
  "[Fin (1 / 10), NaN, Fin 0] \<noteq> []
   \<and> list_all (\<lambda>x. isnan x \<or> fle (Fin 0) x) [Fin (1 / 10), NaN, Fin 0]
   \<and> fle (max_drawdown [Fin (1 / 10), NaN, Fin 0]) (Fin 0)
   \<and> max_drawdown [Fin (1 / 10), NaN, Fin 0] = Fin 0"
  using max_drawdown_nonpositive [of "[Fin (1 / 10), NaN, Fin 0]"]
  by (simp add: fle_def feq_def)

text \<open>A series that loses: after +50% and -50% the drawdown is a third of the peak 1.5.\<close>

lemma max_drawdown_example: "max_drawdown [Fin (1 / 2), Fin (- 1 / 2)] = Fin (- 1 / 3)"
  by (simp add: max_drawdown_def cum_returns_def cumsum_def cumprod_def feq_def fsub_def
      fmax_def fmin_def nanmin_def dropna_def)

section \<open>Omega ratio\<close>

lemma foldl_fadd_NInf: "list_all negative xs \<Longrightarrow> foldl fadd NInf xs = NInf"
  by (induction xs) (auto simp: negative_cases)

lemma foldl_fadd_negative:
  "list_all negative xs \<Longrightarrow>
     foldl fadd (Fin a) xs = NInf
     \<or> (\<exists>s. foldl fadd (Fin a) xs = Fin s \<and> s \<le> a \<and> (xs \<noteq> [] \<longrightarrow> s < a))"
proof (induction xs arbitrary: a)
  case Nil
  then show ?case by simp
next
  case (Cons x xs)
  then have nx: "negative x" and nxs: "list_all negative xs" by auto
  from nx consider "x = NInf" | r where "r < 0" "x = Fin r"
    by (auto simp: negative_cases)
  then show ?case
  proof cases
    case 1
    then show ?thesis using nxs by (simp add: foldl_fadd_NInf)
  next
    case 2
    from Cons.IH[OF nxs, of "a + r"] 2 show ?thesis by auto
  qed
qed

lemma losses_sum:
  "py_sum (filter (\<lambda>x. flt x (Fin 0)) xs) = NInf
   \<or> (\<exists>s\<le>0. py_sum (filter (\<lambda>x. flt x (Fin 0)) xs) = Fin s)"
  using foldl_fadd_negative[of "filter (\<lambda>x. flt x (Fin 0)) xs" 0]
  by (auto simp: py_sum_def list_all_iff negative_def)

text \<open>The sum of the losses is 0 only when there is no loss.\<close>

lemma losses_sum_zero_iff:
  "py_sum (filter (\<lambda>x. flt x (Fin 0)) xs) = Fin 0 \<longleftrightarrow> filter (\<lambda>x. flt x (Fin 0)) xs = []"
  using foldl_fadd_negative[of "filter (\<lambda>x. flt x (Fin 0)) xs" 0]
  by (auto simp: py_sum_def list_all_iff negative_def)

lemma omega_from_threshold_losses:
  "omega_from_threshold returns risk_free return_threshold =
     (let adjusted = map (\<lambda>x. fsub (fsub x risk_free) return_threshold) returns;
          gains = py_sum (filter (\<lambda>x. fgt x (Fin 0)) adjusted);
          losses = py_sum (filter (\<lambda>x. flt x (Fin 0)) adjusted)
      in if losses = Fin 0 then NaN else fdiv gains (fneg losses))"
proof -
  define adjusted where "adjusted = map (\<lambda>x. fsub (fsub x risk_free) return_threshold) returns"
  define losses where "losses = py_sum (filter (\<lambda>x. flt x (Fin 0)) adjusted)"
  have "losses = NInf \<or> (\<exists>s\<le>0. losses = Fin s)"
    unfolding losses_def by (rule losses_sum)
  then have "fmul (Fin (- 1)) losses = fneg losses"
    and "fgt (fmul (Fin (- 1)) losses) (Fin 0) \<longleftrightarrow> losses \<noteq> Fin 0"
    by (auto simp: fgt_def signed_inf_def)
  then show ?thesis
    by (simp add: omega_from_threshold_def Let_def adjusted_def[symmetric] losses_def[symmetric])
qed

text \<open>
  C6, as stated: \<^verbatim>\<open>omega_ratio\<close> is NaN whenever \<^verbatim>\<open>required_return <= -1\<close>, NaN when
  the losses sum to zero, and the ratio of gains to negated losses otherwise. It fails in
  three places. With \<^verbatim>\<open>annualization = 1\<close> the threshold is \<^verbatim>\<open>required_return\<close>
  itself and the test against -1 is skipped: returns \<open>[-3, 0]\<close> with
  \<^verbatim>\<open>required_return = -2\<close> give 2. A series of fewer than two returns gives NaN whatever
  it holds: for the single return -1 the losses sum to -1 and the ratio at the threshold
  would be 0. And \<^verbatim>\<open>annualization = 0\<close> raises where the threshold is converted.
\<close>

theorem omega_ratio_guards_counterexample:
  "fle (Fin (- 2)) (Fin (- 1))
   \<and> omega_ratio [Fin (- 3), Fin 0] (Fin 0) (Fin (- 2)) 1 = Inr (Fin 2)
   \<and> omega_ratio [Fin (- 1)] (Fin 0) (Fin 0) 252 = Inr NaN
   \<and> omega_from_threshold [Fin (- 1)] (Fin 0)
        (fsub (fpow (fadd (Fin 1) (Fin 0)) (1 / 252)) (Fin 1)) = Fin 0
   \<and> omega_ratio [Fin (- 1), Fin 1] (Fin 0) (Fin 0) 0 = Inl ZeroDivisionError"
  by (simp add: omega_ratio_def omega_from_threshold_def fle_def feq_def fsub_def fgt_def
      py_sum_def)

text \<open>
  C6, amended: \<^verbatim>\<open>omega_ratio\<close> is NaN for fewer than two returns. Otherwise, when
  \<^verbatim>\<open>annualization\<close> is not 1, it is NaN whenever \<^verbatim>\<open>required_return <= -1\<close>, and the
  conversion of the threshold raises ZeroDivisionError for \<^verbatim>\<open>annualization = 0\<close>. In
  every other case, with the threshold \<^verbatim>\<open>required_return\<close> (\<^verbatim>\<open>annualization = 1\<close>) or
  \<open>(1 + required_return)^(1 / annualization) - 1\<close>, it is NaN when the adjusted returns
  below the threshold sum to zero, and otherwise the sum of the gains divided by the
  negated sum of the losses.
\<close>

theorem omega_ratio_guarded:
  "omega_ratio returns risk_free required_return annualization =
     (if length returns < 2 then Inr NaN
      else if annualization \<noteq> 1 \<and> fle required_return (Fin (- 1)) then Inr NaN
      else if annualization = 0 then Inl ZeroDivisionError
      else
        let threshold = (if annualization = 1 then required_return
                         else fsub (fpow (fadd (Fin 1) required_return)
                                      (1 / real_of_int annualization)) (Fin 1));
            adjusted = map (\<lambda>x. fsub (fsub x risk_free) threshold) returns;
            gains = py_sum (filter (\<lambda>x. fgt x (Fin 0)) adjusted);
            losses = py_sum (filter (\<lambda>x. flt x (Fin 0)) adjusted)
        in if losses = Fin 0 then Inr NaN else Inr (fdiv gains (fneg losses)))"
  by (simp add: omega_ratio_def omega_from_threshold_losses Let_def)

theorem omega_ratio_guarded_witness:
  "omega_ratio [Fin (1 / 50), Fin (- 1 / 100), Fin (3 / 100)] (Fin 0) (Fin 0) 252
     = Inr (Fin 5)"
  using omega_ratio_guarded
    [of "[Fin (1 / 50), Fin (- 1 / 100), Fin (3 / 100)]" "Fin 0" "Fin 0" 252]
  by (simp add: fle_def feq_def fsub_def fgt_def py_sum_def)

section \<open>Downside risk\<close>

text \<open>
  C9. With \<^verbatim>\<open>required_return = 0\<close>, replacing a strictly positive return by any other
  strictly positive value leaves \<^verbatim>\<open>downside_risk\<close> unchanged, whatever the period and the
  annualization: both values are set to 0 before the squares are averaged.
\<close>

theorem downside_risk_positive_invariant:
  assumes "i < length returns" and "fgt (returns ! i) (Fin 0)" and "fgt v (Fin 0)"
  shows "downside_risk (returns[i := v]) (Scalar (Fin 0)) period annualization
       = downside_risk returns (Scalar (Fin 0)) period annualization"
proof -
  let ?clip = "\<lambda>x. if fgt x (Fin 0) then Fin 0 else x"
  have "map ?clip (returns[i := v]) = (map ?clip returns)[i := ?clip v]"
    by (simp add: map_update)
  also have "\<dots> = map ?clip returns"
    using assms by (simp add: list_update_same_conv)
  finally have eq: "map ?clip (returns[i := v]) = map ?clip returns" .
  show ?thesis
    using assms(1) eq
    by (simp add: downside_risk_def feq_def split: sum.splits)
qed

theorem downside_risk_positive_invariant_witness:
  "(1 :: nat) < length [Fin (- 3 / 100), Fin (1 / 100), Fin (- 4 / 100), Fin 0]
   \<and> fgt ([Fin (- 3 / 100), Fin (1 / 100), Fin (- 4 / 100), Fin 0] ! 1) (Fin 0)
   \<and> fgt (Fin 7) (Fin 0)
   \<and> downside_risk [Fin (- 3 / 100), Fin 7, Fin (- 4 / 100), Fin 0] (Scalar (Fin 0))
         ''daily'' (Some (Fin 4))
       = downside_risk [Fin (- 3 / 100), Fin (1 / 100), Fin (- 4 / 100), Fin 0]
           (Scalar (Fin 0)) ''daily'' (Some (Fin 4))
   \<and> downside_risk [Fin (- 3 / 100), Fin (1 / 100), Fin (- 4 / 100), Fin 0]
           (Scalar (Fin 0)) ''daily'' (Some (Fin 4)) = Inr (Fin (1 / 20))"
proof -
  have computed: "downside_risk [Fin (- 3 / 100), Fin (1 / 100), Fin (- 4 / 100), Fin 0]
           (Scalar (Fin 0)) ''daily'' (Some (Fin 4)) = Inr (Fin (1 / 20))"
  proof -
    have "sqrt (1 / 1600) = 1 / 40"
      by (rule real_sqrt_unique) (simp_all add: power2_eq_square)
    moreover have "sqrt 4 = 2"
      by (rule real_sqrt_unique) simp_all
    ultimately show ?thesis
      by (simp add: downside_risk_def annualization_factor_def feq_def fgt_def nanmean_def
          dropna_def fsum_def)
  qed
  show ?thesis
    using downside_risk_positive_invariant
      [of 1 "[Fin (- 3 / 100), Fin (1 / 100), Fin (- 4 / 100), Fin 0]" "Fin 7"
          "''daily''" "Some (Fin 4)"] computed
    by (simp add: fgt_def)
qed

text \<open>
  Over a series of numbers the result is the root mean square of the negative parts, taken
  over all periods and not only the losing ones, times the square root of the factor.
\<close>

lemma dropna_Fin: "dropna (map Fin xs) = map Fin xs"
  by (induction xs) (auto simp: dropna_def)

lemma nanmean_Fin: "xs \<noteq> [] \<Longrightarrow> nanmean (map Fin xs) = Fin (pmean xs)"
  by (simp add: nanmean_def dropna_Fin fsum_Fin pmean_def)

lemma downside_risk_rms:
  assumes "xs \<noteq> []" and "0 \<le> ann"
  shows "downside_risk (map Fin xs) (Scalar (Fin 0)) period (Some (Fin ann)) =
     Inr (Fin (sqrt (sum_list (map (\<lambda>x. (min x 0)\<^sup>2) xs) / real (length xs)) * sqrt ann))"
proof -
  define ys where "ys = map (\<lambda>x. (min x 0)\<^sup>2) xs"
  have squares: "map (\<lambda>x. fmul x x) (map (\<lambda>x. if fgt x (Fin 0) then Fin 0 else x) (map Fin xs))
                 = map Fin ys"
    by (auto simp: ys_def fgt_def min_def power2_eq_square)
  have ne: "ys \<noteq> []" and len: "length ys = length xs"
    using assms(1) by (simp_all add: ys_def)
  have mean: "nanmean (map Fin ys) = Fin (sum_list ys / real (length xs))"
    using ne len by (simp add: nanmean_Fin pmean_def)
  have "0 \<le> sum_list ys"
    by (rule sum_list_nonneg) (auto simp: ys_def)
  then have nonneg: "0 \<le> sum_list ys / real (length xs)"
    by simp
  have "downside_risk (map Fin xs) (Scalar (Fin 0)) period (Some (Fin ann)) =
     Inr (Fin (sqrt (sum_list ys / real (length xs)) * sqrt ann))"
    unfolding downside_risk_def adjust_returns_scalar Let_def
    using assms nonneg
    by (simp add: annualization_factor_def fsub_Fin_zero squares mean
      del: adjust_returns.simps map_map)
  then show ?thesis
    by (simp add: ys_def)
qed

section \<open>Excess Sharpe\<close>

lemma nanstd_all_nan:
  assumes "list_all isnan xs"
  shows "nanstd xs ddof = NaN"
proof -
  have "dropna xs = []"
    using assms by (simp add: dropna_def list_all_iff)
  then show ?thesis
    by (simp add: nanstd_def)
qed

text \<open>
  C7. For \<^verbatim>\<open>returns\<close> and \<^verbatim>\<open>factor_returns\<close> of one length, at least 2,
  \<^verbatim>\<open>excess_sharpe\<close> raises nothing; with the tracking error, the sample standard deviation
  of \<^verbatim>\<open>returns - factor_returns\<close>, it is 0.0 when the tracking error is NaN, NaN when
  the tracking error is exactly 0, and the mean active return divided by the tracking error
  otherwise. An active return that is NaN throughout gives 0.0.
\<close>

theorem excess_sharpe_tracking_error_cases:
  assumes "length returns = length factor_returns" and "2 \<le> length returns"
  shows "excess_sharpe returns (Series factor_returns) =
     Inr (let active_return = map2 fsub returns factor_returns;
              tracking_error = nanstd active_return 1
          in if isnan tracking_error then Fin 0
             else if tracking_error = Fin 0 then NaN
             else fdiv (nanmean active_return) tracking_error)
     \<and> (list_all isnan (map2 fsub returns factor_returns)
          \<longrightarrow> excess_sharpe returns (Series factor_returns) = Inr (Fin 0))"
  using assms
  by (auto simp: excess_sharpe_def array_sub_def Let_def feq_def nanstd_all_nan)

theorem excess_sharpe_tracking_error_cases_witness:
  "length [Fin 1, Fin 3, Fin 5] = length [Fin 1, Fin 2, Fin 3]
   \<and> 2 \<le> length [Fin 1, Fin 3, Fin 5]
   \<and> excess_sharpe [Fin 1, Fin 3, Fin 5] (Series [Fin 1, Fin 2, Fin 3]) = Inr (Fin 1)"
  using excess_sharpe_tracking_error_cases [of "[Fin 1, Fin 3, Fin 5]" "[Fin 1, Fin 2, Fin 3]"]
  by (simp add: nanstd_def nanmean_def dropna_def fsum_def fsub_def)

text \<open>The two degenerate signals at concrete inputs: no valid data, and no variance.\<close>

lemma excess_sharpe_examples:
  "excess_sharpe [NaN, NaN] (Series [Fin 1, Fin 2]) = Inr (Fin 0)"
  "excess_sharpe [Fin 2, Fin 3] (Series [Fin 1, Fin 2]) = Inr NaN"
  by (simp_all add: excess_sharpe_def array_sub_def nanstd_def nanmean_def dropna_def
      fsum_def fsub_def feq_def)

section \<open>Beta\<close>

lemma row_mean_Fin: "xs \<noteq> [] \<Longrightarrow> row_mean (map Fin xs) = Fin (pmean xs)"
  by (simp add: row_mean_def fsum_Fin pmean_def)

lemma cov_entry_Fin:
  assumes "xs \<noteq> []" "length xs = length ys"
  shows "cov_entry (map Fin xs) (map Fin ys) 0 = Fin (pcov xs ys)"
proof -
  have ys: "ys \<noteq> []" using assms by auto
  have cx: "map (\<lambda>x. fsub x (row_mean (map Fin xs))) (map Fin xs)
            = map Fin (map (\<lambda>x. x - pmean xs) xs)"
    using assms(1) by (simp add: row_mean_Fin fsub_def)
  have cy: "map (\<lambda>y. fsub y (row_mean (map Fin ys))) (map Fin ys)
            = map Fin (map (\<lambda>y. y - pmean ys) ys)"
    using ys by (simp add: row_mean_Fin fsub_def)
  have prod: "map2 (*) (map (\<lambda>x. x - pmean xs) xs) (map (\<lambda>y. y - pmean ys) ys)
            = map2 (\<lambda>x y. (x - pmean xs) * (y - pmean ys)) xs ys"
    by (simp add: zip_map1 zip_map2 split_def)
  show ?thesis
    unfolding cov_entry_def Let_def cx cy map2_fmul_Fin fsum_Fin prod
    using assms(1) by (simp add: pcov_def)
qed

text \<open>
  Without infinities, the columns that survive the NaN filter are the pairs of numbers,
  the first of each adjusted by the risk-free rate.
\<close>

lemma joint_valid_pairs:
  assumes "length returns = length factor_returns"
    "list_all (\<lambda>x. \<not> isinf x) returns" "list_all (\<lambda>x. \<not> isinf x) factor_returns"
  shows "filter (\<lambda>(x, y). \<not> (isnan x \<or> isnan y))
           (zip (map (\<lambda>x. fsub x (Fin rf)) returns) factor_returns)
         = map (\<lambda>(x, y). (Fin (x - rf), Fin y)) (valid_pairs returns factor_returns)"
  using assms
proof (induction returns factor_returns rule: list_induct2)
  case Nil
  then show ?case by simp
next
  case (Cons x xs y ys)
  then show ?case
    by (cases x; cases y) (auto simp: fsub_def)
qed

lemma length_valid_pairs_le: "length (valid_pairs xs ys) \<le> length xs"
  by (induction xs ys rule: valid_pairs.induct) auto

lemma beta_aligned_finite:
  assumes "length returns = length factor_returns"
    and "list_all (\<lambda>x. \<not> isinf x) returns"
    and "list_all (\<lambda>x. \<not> isinf x) factor_returns"
  shows "beta_aligned returns factor_returns (Fin risk_free) =
     Inr (let joint = valid_pairs returns factor_returns;
              xs = map (\<lambda>(x, y). x - risk_free) joint;
              ys = map snd joint
          in if length joint < 2 \<or> \<bar>pvar ys\<bar> < 1 / 10 ^ 30 then NaN
             else Fin (pcov xs ys / pvar ys))"
proof (cases "length returns < 2")
  case True
  then have "length (valid_pairs returns factor_returns) < 2"
    using length_valid_pairs_le[of returns factor_returns] by simp
  with True show ?thesis
    by (simp add: beta_aligned_def Let_def)
next
  case False
  define joint where "joint = valid_pairs returns factor_returns"
  define xs where "xs = map (\<lambda>(x, y). x - risk_free) joint"
  define ys where "ys = map snd joint"
  have filt: "filter (\<lambda>(x, y). \<not> isnan x \<and> \<not> isnan y)
           (zip (map (\<lambda>x. fsub x (Fin risk_free)) returns) factor_returns)
         = map (\<lambda>(x, y). (Fin (x - risk_free), Fin y)) joint"
    using joint_valid_pairs[OF assms, of risk_free] by (simp add: joint_def)
  have fst_eq: "map (fst \<circ> (\<lambda>(x, y). (Fin (x - risk_free), Fin y))) joint = map Fin xs"
    by (simp add: xs_def split_def comp_def)
  have snd_eq: "map (snd \<circ> (\<lambda>(x, y). (Fin (x - risk_free), Fin y))) joint = map Fin ys"
    by (simp add: ys_def split_def comp_def)
  have len: "length xs = length joint" "length ys = length joint"
    by (simp_all add: xs_def ys_def)
  show ?thesis
  proof (cases "length joint < 2")
    case True
    then show ?thesis
      using False assms(1)
      by (simp add: beta_aligned_def adjust_returns_scalar filt Let_def joint_def[symmetric]
          del: adjust_returns.simps)
  next
    case long: False
    then have ne: "xs \<noteq> []" "ys \<noteq> []" using len by auto
    have c01: "cov_entry (map Fin xs) (map Fin ys) 0 = Fin (pcov xs ys)"
      using ne len by (simp add: cov_entry_Fin)
    have c11: "cov_entry (map Fin ys) (map Fin ys) 0 = Fin (pvar ys)"
      using ne by (simp add: cov_entry_Fin pvar_def)
    have nz: "\<not> \<bar>pvar ys\<bar> < 1 / 10 ^ 30 \<Longrightarrow> pvar ys \<noteq> 0"
      by auto
    show ?thesis
      using False assms(1) long nz
      by (simp add: beta_aligned_def adjust_returns_scalar filt Let_def joint_def[symmetric]
          fst_eq snd_eq np_cov_def c01 c11 xs_def[symmetric] ys_def[symmetric]
          del: adjust_returns.simps)
  qed
qed

text \<open>A NaN risk-free rate makes every adjusted return NaN: no column survives.\<close>

lemma fsub_NaN: "fsub x NaN = NaN"
  by (cases x) (simp_all add: fsub_def)

lemma joint_empty_nan_risk_free:
  "filter (\<lambda>(x, y). \<not> isnan x \<and> \<not> isnan y) (zip (map (\<lambda>x. fsub x NaN) xs) ys) = []"
  by (induction xs arbitrary: ys) (auto simp: fsub_NaN zip_Cons1 split: list.splits)

lemma beta_aligned_nan_risk_free:
  assumes "length returns = length factor_returns"
  shows "beta_aligned returns factor_returns NaN = Inr NaN"
  using assms
  by (simp add: beta_aligned_def feq_def joint_empty_nan_risk_free Let_def)

text \<open>
  C5, as stated: for every pair of series of one length, \<^verbatim>\<open>beta_aligned\<close> is NaN exactly
  when fewer than 2 joint-valid observations remain or the factor variance is below
  \<open>1e-30\<close> in magnitude. It fails where a value is infinite. An infinity is not NaN, so its
  column is kept, and centring the row on its infinite mean gives NaN: the returns
  \<open>[inf, 1, 2]\<close> against the factor returns \<open>[1, 2, 3]\<close> keep all 3 columns, the factor
  variance is \<open>2/3\<close>, and the result is NaN. An infinite risk-free rate does the same to
  \<open>[1, 2]\<close> against \<open>[1, 2]\<close>, where the factor variance is \<open>1/4\<close>.
\<close>

theorem beta_aligned_infinity_counterexample:
  "length [PInf, Fin 1, Fin 2] = length [Fin 1, Fin 2, Fin 3]
   \<and> length (filter (\<lambda>(x, y). \<not> (isnan x \<or> isnan y))
         (zip [PInf, Fin 1, Fin 2] [Fin 1, Fin 2, Fin 3])) = 3
   \<and> cov_entry [Fin 1, Fin 2, Fin 3] [Fin 1, Fin 2, Fin 3] 0 = Fin (2 / 3)
   \<and> \<not> flt (fabs (Fin (2 / 3))) (Fin (1 / 10 ^ 30))
   \<and> beta_aligned [PInf, Fin 1, Fin 2] [Fin 1, Fin 2, Fin 3] (Fin 0) = Inr NaN
   \<and> cov_entry [Fin 1, Fin 2] [Fin 1, Fin 2] 0 = Fin (1 / 4)
   \<and> beta_aligned [Fin 1, Fin 2] [Fin 1, Fin 2] PInf = Inr NaN"
  by (simp add: beta_aligned_def np_cov_def cov_entry_def row_mean_def fsum_def fsub_def
      feq_def signed_inf_def)

text \<open>
  C5, amended: for series of one length that hold numbers and NaNs but no infinity, and a
  risk-free rate that is a number, \<^verbatim>\<open>beta_aligned\<close> keeps the positions where both series
  hold a number. It is NaN when fewer than 2 such positions remain or the population
  variance of the factor returns there is below \<open>1e-30\<close> in magnitude, and otherwise, never
  NaN, the population covariance of the adjusted returns and the factor returns divided by
  that variance. With a NaN risk-free rate no adjusted return is valid and the result is
  NaN.
\<close>

theorem beta_aligned_population_cov:
  assumes "length returns = length factor_returns"
    and "list_all (\<lambda>x. \<not> isinf x) returns"
    and "list_all (\<lambda>x. \<not> isinf x) factor_returns"
  shows "beta_aligned returns factor_returns (Fin risk_free) =
     Inr (let joint = valid_pairs returns factor_returns;
              xs = map (\<lambda>(x, y). x - risk_free) joint;
              ys = map snd joint
          in if length joint < 2 \<or> \<bar>pvar ys\<bar> < 1 / 10 ^ 30 then NaN
             else Fin (pcov xs ys / pvar ys))
     \<and> beta_aligned returns factor_returns NaN = Inr NaN"
  using assms by (simp add: beta_aligned_finite beta_aligned_nan_risk_free)

theorem beta_aligned_population_cov_witness:
  "length [Fin 1, Fin 2, NaN, Fin 4] = length [Fin 1, Fin 3, Fin 5, NaN]
   \<and> list_all (\<lambda>x. \<not> isinf x) [Fin 1, Fin 2, NaN, Fin 4]
   \<and> list_all (\<lambda>x. \<not> isinf x) [Fin 1, Fin 3, Fin 5, NaN]
   \<and> beta_aligned [Fin 1, Fin 2, NaN, Fin 4] [Fin 1, Fin 3, Fin 5, NaN] (Fin 0)
       = Inr (Fin (1 / 2))
   \<and> beta_aligned [Fin 1, Fin 2, NaN, Fin 4] [Fin 1, Fin 3, Fin 5, NaN] NaN = Inr NaN"
  using beta_aligned_population_cov
    [of "[Fin 1, Fin 2, NaN, Fin 4]" "[Fin 1, Fin 3, Fin 5, NaN]" 0]
  by (simp add: pcov_def pvar_def pmean_def)

section \<open>Value at risk\<close>

text \<open>
  C3. The claim: no metric raises on a degenerate numeric input, an empty series passed
  to \<^verbatim>\<open>value_at_risk\<close> included; the result is NaN. \<^verbatim>\<open>value_at_risk\<close> has no test for
  the empty series, unlike \<^verbatim>\<open>cum_returns_final\<close>, \<^verbatim>\<open>max_drawdown\<close> and
  \<^verbatim>\<open>downside_risk\<close>, which return NaN there: it hands the empty array to
  \<^verbatim>\<open>np.percentile\<close>, which raises IndexError. A period label is not the only other source
  of an error either: \<^verbatim>\<open>omega_ratio\<close> divides by \<^verbatim>\<open>annualization\<close> and raises
  ZeroDivisionError when it is 0.
\<close>

theorem value_at_risk_empty_raises:
  "value_at_risk [] (Fin (5 / 100)) = Inl IndexError
   \<and> cum_returns_final [] (Fin 0) = Inr NaN
   \<and> max_drawdown [] = NaN
   \<and> downside_risk [] (Scalar (Fin 0)) ''daily'' None = Inr NaN
   \<and> omega_ratio [Fin (1 / 100), Fin (- 1 / 100)] (Fin 0) (Fin 0) 0 = Inl ZeroDivisionError"
  by (simp add: value_at_risk_def np_percentile_def cum_returns_final_def max_drawdown_def
      downside_risk_def omega_ratio_def fle_def feq_def)

text \<open>On a non-empty series the percentile interpolates: the median of 1..4 is 2.5.\<close>

lemma value_at_risk_example:
  "value_at_risk [Fin 3, Fin 1, Fin 4, Fin 2] (Fin (1 / 2)) = Inr (Fin (5 / 2))"
proof -
  have "nat \<lfloor>3 / 2 :: real\<rfloor> = 1"
    by linarith
  then show ?thesis
    by (simp add: value_at_risk_def np_percentile_def np_sort_def lerp_def fsub_def)
qed

text \<open>Halfway between 1 and infinity the interpolation is \<open>inf - inf\<close>, which is NaN.\<close>

lemma value_at_risk_infinity_example:
  "value_at_risk [PInf, Fin 1] (Fin (1 / 2)) = Inr NaN"
proof -
  have "nat \<lfloor>1 / 2 :: real\<rfloor> = 0"
    by linarith
  then show ?thesis
    by (simp add: value_at_risk_def np_percentile_def np_sort_def lerp_def fsub_def
        signed_inf_def)
qed

end
